theory Spec2Isabelle
  imports Complex_Main "HOL-Library.Multiset" "HOL-Library.Log_Nat"
begin

section \<open>Data model of \<open>src/backend/main.py\<close>\<close>

text \<open>
  The enums \<open>FoodType\<close> and \<open>DonationStatus\<close>, with the string each member has as its
  \<open>.value\<close>.
\<close>

datatype FoodType = VEG | NON_VEG | VEGAN | MIXED

datatype DonationStatus = AVAILABLE | ASSIGNED | IN_TRANSIT | DELIVERED | CANCELLED

fun FoodType_value :: "FoodType \<Rightarrow> string" where
  "FoodType_value VEG = ''VEG''"
| "FoodType_value NON_VEG = ''NON_VEG''"
| "FoodType_value VEGAN = ''VEGAN''"
| "FoodType_value MIXED = ''MIXED''"

fun DonationStatus_value :: "DonationStatus \<Rightarrow> string" where
  "DonationStatus_value AVAILABLE = ''AVAILABLE''"
| "DonationStatus_value ASSIGNED = ''ASSIGNED''"
| "DonationStatus_value IN_TRANSIT = ''IN_TRANSIT''"
| "DonationStatus_value DELIVERED = ''DELIVERED''"
| "DonationStatus_value CANCELLED = ''CANCELLED''"

text \<open>
  A naive \<open>datetime\<close> is a point on a line with microsecond resolution: the number of
  microseconds since an epoch. A finite Python \<open>float\<close> is the rational number it holds;
  where the source computes with floats, each result is rounded to the nearest double
  (\<open>binary64\<close> below).
\<close>

type_synonym datetime = int

text \<open>
  A row of the table \<open>donations\<close> (class \<open>Donation\<close>). The primary key \<open>id\<close> is the field
  \<open>donation_id\<close>; \<open>location\<close> holds the point \<open>(longitude, latitude)\<close> of the WKT element.
\<close>

record Donation =
  donation_id :: int
  donor_name :: string
  donor_phone :: string
  food_type :: FoodType
  quantity_kg :: rat
  description :: "string option"
  location :: "rat \<times> rat"
  latitude :: rat
  longitude :: rat
  address :: string
  status :: DonationStatus
  created_at :: datetime
  expires_at :: datetime
  assigned_volunteer_id :: "int option"
  assigned_at :: "datetime option"

text \<open>The request body \<open>DonationCreate\<close>; its fields carry the prefix \<open>dc_\<close>.\<close>

record DonationCreate =
  dc_donor_name :: string
  dc_donor_phone :: string
  dc_food_type :: FoodType
  dc_quantity_kg :: rat
  dc_description :: "string option"
  dc_latitude :: rat
  dc_longitude :: rat
  dc_address :: string
  dc_expires_at :: datetime

text \<open>The response model \<open>MapMarker\<close>; its fields carry the prefix \<open>m_\<close>.\<close>

record MapMarker =
  m_id :: int
  m_latitude :: rat
  m_longitude :: rat
  m_food_type :: FoodType
  m_quantity_kg :: rat
  m_status :: DonationStatus
  m_donor_name :: string
  m_expires_at :: datetime
  time_until_expiry_hours :: rat

text \<open>
  The dictionaries handed to \<open>manager.broadcast\<close>: an event name and the entries of
  \<open>data\<close>, in the order the source writes them.
\<close>

datatype json = JInt int | JNum rat | JStr string

record message =
  event :: string
  data :: "(string \<times> json) list"

text \<open>
  What a handler can raise: the 404 of \<open>HTTPException\<close>, the rejection of a request body
  by its pydantic model, a failure of the store at \<open>db.commit()\<close>, and the \<open>ValueError\<close> of
  \<open>list.remove\<close>.
\<close>

datatype error = NotFound | ValidationError | StoreUnavailable | ValueError

section \<open>The connection manager\<close>

text \<open>
  \<open>list.remove(x)\<close> deletes the first occurrence of \<open>x\<close> and raises \<open>ValueError\<close> when
  there is none.
\<close>

definition list_remove :: "'a \<Rightarrow> 'a list \<Rightarrow> error + 'a list" where
  "list_remove x xs = (if x \<in> set xs then Inr (remove1 x xs) else Inl ValueError)"

text \<open>\<open>ConnectionManager.connect\<close>: the accepted socket is appended to the list.\<close>

definition connect :: "'ws \<Rightarrow> 'ws list \<Rightarrow> 'ws list" where
  "connect websocket conns = conns @ [websocket]"

text \<open>\<open>ConnectionManager.disconnect\<close>.\<close>

definition disconnect :: "'ws \<Rightarrow> 'ws list \<Rightarrow> error + 'ws list" where
  "disconnect websocket conns = list_remove websocket conns"

text \<open>
  What another task can do to the list while a broadcast is suspended in an \<open>await\<close>:
  the task of a new socket runs \<open>manager.connect\<close>; the task of a socket that has seen
  \<open>WebSocketDisconnect\<close> runs \<open>manager.disconnect\<close>, and so removes the first occurrence
  of its socket (when there is none, the \<open>ValueError\<close> is raised in that task and the list
  stays as it is).
\<close>

datatype 'ws task_action = Connect 'ws | Disconnect 'ws

fun run_task :: "'ws task_action \<Rightarrow> 'ws list \<Rightarrow> 'ws list" where
  "run_task (Connect websocket) conns = connect websocket conns"
| "run_task (Disconnect websocket) conns =
     (case disconnect websocket conns of Inl e \<Rightarrow> conns | Inr conns' \<Rightarrow> conns')"

definition run_tasks :: "'ws task_action list \<Rightarrow> 'ws list \<Rightarrow> 'ws list" where
  "run_tasks tasks conns = fold run_task tasks conns"

text \<open>
  The first loop of \<open>ConnectionManager.broadcast\<close> while no other task runs.
  \<open>send_json c msg\<close> tells whether the send to \<open>c\<close> returns (\<open>True\<close>) or raises
  (\<open>False\<close>). The loop collects the sockets whose send raised in \<open>disconnected\<close>;
  \<open>attempts\<close> records every send made, with its outcome.
\<close>

fun broadcast_sends ::
  "('ws \<Rightarrow> message \<Rightarrow> bool) \<Rightarrow> message \<Rightarrow> 'ws list \<Rightarrow> 'ws list \<Rightarrow> ('ws \<times> bool) list
     \<Rightarrow> 'ws list \<times> ('ws \<times> bool) list" where
  "broadcast_sends send_json msg [] disconnected attempts = (disconnected, attempts)"
| "broadcast_sends send_json msg (connection # rest) disconnected attempts =
     (if send_json connection msg
      then broadcast_sends send_json msg rest disconnected (attempts @ [(connection, True)])
      else broadcast_sends send_json msg rest (disconnected @ [connection])
             (attempts @ [(connection, False)]))"

text \<open>
  The first loop with other tasks running. \<open>for connection in self.active_connections\<close>
  reads the list as it is at each step: the iterator holds a position \<open>i\<close>, takes the
  element at \<open>i\<close> if there is one, and moves on by one. Each send is an \<open>await\<close>;
  \<open>tasks\<close> gives, for the sends of the loop in turn, what other tasks do to the list
  during that \<open>await\<close>. When \<open>tasks\<close> is used up no other task runs any more and the
  loop visits the elements from position \<open>i\<close> on in order. The result is the list as
  the loop leaves it, with \<open>disconnected\<close> and \<open>attempts\<close>.
\<close>

fun broadcast_sends_live ::
  "'ws task_action list list \<Rightarrow> ('ws \<Rightarrow> message \<Rightarrow> bool) \<Rightarrow> message \<Rightarrow> nat \<Rightarrow> 'ws list
     \<Rightarrow> 'ws list \<Rightarrow> ('ws \<times> bool) list \<Rightarrow> 'ws list \<times> 'ws list \<times> ('ws \<times> bool) list" where
  "broadcast_sends_live [] send_json msg i conns disconnected attempts =
     (case broadcast_sends send_json msg (drop i conns) disconnected attempts of
        (disconnected', attempts') \<Rightarrow> (conns, disconnected', attempts'))"
| "broadcast_sends_live (during_send # later) send_json msg i conns disconnected attempts =
     (if i < length conns
      then
        let connection = conns ! i;
            sent = send_json connection msg;
            conns' = run_tasks during_send conns
        in broadcast_sends_live later send_json msg (i + 1) conns'
             (if sent then disconnected else disconnected @ [connection])
             (attempts @ [(connection, sent)])
      else (conns, disconnected, attempts))"

text \<open>
  The second loop: every collected socket is removed from the list. It has no \<open>await\<close>.
  A \<open>ValueError\<close> of \<open>remove\<close> ends it, with the list as it is then.
\<close>

fun broadcast_cleanup :: "'ws list \<Rightarrow> 'ws list \<Rightarrow> (error \<times> 'ws list) + 'ws list" where
  "broadcast_cleanup [] conns = Inr conns"
| "broadcast_cleanup (conn # rest) conns =
     (case list_remove conn conns of
        Inl e \<Rightarrow> Inl (e, conns)
      | Inr conns' \<Rightarrow> broadcast_cleanup rest conns')"

text \<open>
  \<open>ConnectionManager.broadcast\<close>: the new list of connections and the sends that were
  made, or the exception that escapes together with them.
\<close>

definition broadcast ::
  "'ws task_action list list \<Rightarrow> ('ws \<Rightarrow> message \<Rightarrow> bool) \<Rightarrow> message \<Rightarrow> 'ws list
     \<Rightarrow> (error \<times> 'ws list \<times> ('ws \<times> bool) list) + ('ws list \<times> ('ws \<times> bool) list)" where
  "broadcast tasks send_json msg conns =
     (case broadcast_sends_live tasks send_json msg 0 conns [] [] of
        (live, disconnected, attempts) \<Rightarrow>
          (case broadcast_cleanup disconnected live of
             Inl (e, conns') \<Rightarrow> Inl (e, conns', attempts)
           | Inr conns' \<Rightarrow> Inr (conns', attempts)))"

text \<open>The sockets that received the message: the sends that returned.\<close>

definition received :: "('ws \<times> bool) list \<Rightarrow> 'ws list" where
  "received attempts = map fst (filter snd attempts)"

section \<open>The store, the environment and the effects of a handler\<close>

text \<open>
  The state the handlers share: the rows of the table \<open>donations\<close> in the order the
  store holds them (an insert adds a row at the end), the next value of the sequence
  behind the primary key, and \<open>manager.active_connections\<close>.
\<close>

record 'ws world =
  donations :: "Donation list"
  next_id :: int
  active_connections :: "'ws list"

text \<open>
  What a handler gets from outside during one call: the value of \<open>datetime.utcnow()\<close>;
  whether \<open>db.commit()\<close> is acknowledged by the store or raises; whether the read of the
  committed row that follows (\<open>db.refresh(db_donation)\<close> in \<open>create_donation\<close>, the reload
  of the expired \<open>donation.id\<close> in \<open>update_donation_status\<close>) returns or raises; for each
  socket whether \<open>send_json\<close> returns or raises; and what other tasks do to the connection
  list during the sends of the broadcast.
\<close>

record 'ws env =
  utcnow :: datetime
  commit_ok :: bool
  reload_ok :: bool
  send_json :: "'ws \<Rightarrow> message \<Rightarrow> bool"
  other_tasks :: "'ws task_action list list"

text \<open>
  The effects of a call, in the order they happen: an acknowledged \<open>db.commit()\<close>, and a
  call of \<open>manager.broadcast\<close> with its message and the sends it made.
\<close>

datatype 'ws effect = Commit | Broadcast message "('ws \<times> bool) list"

record ('ws, 'r) outcome =
  result :: "error + 'r"
  state :: "'ws world"
  effects :: "'ws effect list"

section \<open>Request validation\<close>

text \<open>
  The pattern of \<open>donor_phone\<close>, \<open>^\+?[1-9]\d{9,14}$\<close>, on ASCII digits: an optional plus
  sign, a digit from 1 to 9, then 9 to 14 digits.
\<close>

definition is_digit :: "char \<Rightarrow> bool" where
  "is_digit c = (c \<in> set ''0123456789'')"

definition phone_pattern :: "string \<Rightarrow> bool" where
  "phone_pattern s =
     (case (case s of [] \<Rightarrow> [] | c # r \<Rightarrow> if c = CHR ''+'' then r else s) of
        [] \<Rightarrow> False
      | d # r \<Rightarrow> d \<in> set ''123456789'' \<and> 9 \<le> length r \<and> length r \<le> 14 \<and> list_all is_digit r)"

text \<open>
  The \<open>Field\<close> constraints of \<open>DonationCreate\<close>, in the order of the class. The field
  \<open>expires_at\<close> has none.
\<close>

definition DonationCreate_valid :: "DonationCreate \<Rightarrow> bool" where
  "DonationCreate_valid donation =
     (2 \<le> length (dc_donor_name donation) \<and> length (dc_donor_name donation) \<le> 100
      \<and> phone_pattern (dc_donor_phone donation)
      \<and> 0 < dc_quantity_kg donation \<and> dc_quantity_kg donation \<le> 500
      \<and> (case dc_description donation of None \<Rightarrow> True | Some t \<Rightarrow> length t \<le> 500)
      \<and> - 90 \<le> dc_latitude donation \<and> dc_latitude donation \<le> 90
      \<and> - 180 \<le> dc_longitude donation \<and> dc_longitude donation \<le> 180
      \<and> 10 \<le> length (dc_address donation) \<and> length (dc_address donation) \<le> 300)"

section \<open>The handlers\<close>

text \<open>The payload of the event \<open>NEW_DONATION\<close>.\<close>

definition new_donation_message :: "Donation \<Rightarrow> message" where
  "new_donation_message db_donation =
     \<lparr>event = ''NEW_DONATION'',
      data = [(''id'', JInt (donation_id db_donation)),
              (''latitude'', JNum (latitude db_donation)),
              (''longitude'', JNum (longitude db_donation)),
              (''food_type'', JStr (FoodType_value (food_type db_donation))),
              (''quantity_kg'', JNum (quantity_kg db_donation)),
              (''donor_name'', JStr (donor_name db_donation)),
              (''status'', JStr (DonationStatus_value (status db_donation)))]\<rparr>"

text \<open>The row that \<open>create_donation\<close> builds and the store completes on insert.\<close>

definition new_row :: "int \<Rightarrow> datetime \<Rightarrow> DonationCreate \<Rightarrow> Donation" where
  "new_row i now donation =
     \<lparr>donation_id = i,
      donor_name = dc_donor_name donation,
      donor_phone = dc_donor_phone donation,
      food_type = dc_food_type donation,
      quantity_kg = dc_quantity_kg donation,
      description = dc_description donation,
      location = (dc_longitude donation, dc_latitude donation),
      latitude = dc_latitude donation,
      longitude = dc_longitude donation,
      address = dc_address donation,
      status = AVAILABLE,
      created_at = now,
      expires_at = dc_expires_at donation,
      assigned_volunteer_id = None,
      assigned_at = None\<rparr>"

text \<open>
  The tail shared by the two broadcasting handlers, after \<open>db.commit()\<close> has returned in
  state \<open>w\<close>: the read of the committed row, the call of \<open>manager.broadcast\<close> and the
  \<open>return\<close>. A read that raises ends the handler before the broadcast; an exception that
  escapes \<open>manager.broadcast\<close> ends it after the sends. In both cases the commit stands.
\<close>

definition broadcast_and_return ::
  "'ws env \<Rightarrow> message \<Rightarrow> 'r \<Rightarrow> 'ws world \<Rightarrow> ('ws, 'r) outcome" where
  "broadcast_and_return e msg r w =
     (if \<not> reload_ok e
      then \<lparr>result = Inl StoreUnavailable, state = w, effects = [Commit]\<rparr>
      else
        case broadcast (other_tasks e) (send_json e) msg (active_connections w) of
          Inl (err, conns, attempts) \<Rightarrow>
            \<lparr>result = Inl err, state = w\<lparr>active_connections := conns\<rparr>,
             effects = [Commit, Broadcast msg attempts]\<rparr>
        | Inr (conns, attempts) \<Rightarrow>
            \<lparr>result = Inr r, state = w\<lparr>active_connections := conns\<rparr>,
             effects = [Commit, Broadcast msg attempts]\<rparr>)"

text \<open>
  \<open>POST /api/donations\<close>. A body that fails the model's constraints is answered before
  the handler runs. A commit that raises leaves the table as it was; whether the store
  still consumes a value of the sequence then is not modelled, and nothing below depends
  on it.
\<close>

definition create_donation ::
  "'ws env \<Rightarrow> DonationCreate \<Rightarrow> 'ws world \<Rightarrow> ('ws, Donation) outcome" where
  "create_donation e donation w =
     (if \<not> DonationCreate_valid donation
      then \<lparr>result = Inl ValidationError, state = w, effects = []\<rparr>
      else
        let db_donation = new_row (next_id w) (utcnow e) donation in
        if \<not> commit_ok e
        then \<lparr>result = Inl StoreUnavailable, state = w, effects = []\<rparr>
        else broadcast_and_return e (new_donation_message db_donation) db_donation
               (w\<lparr>donations := donations w @ [db_donation], next_id := next_id w + 1\<rparr>))"

text \<open>\<open>DELETE /api/donations/cleanup\<close>; the answer is the text of \<open>message\<close>.\<close>

fun str_nat :: "nat \<Rightarrow> string" where
  "str_nat n =
     (if n < 10 then [''0123456789'' ! n]
      else str_nat (n div 10) @ [''0123456789'' ! (n mod 10)])"

definition cleanup_expired_donations :: "'ws env \<Rightarrow> 'ws world \<Rightarrow> ('ws, string) outcome" where
  "cleanup_expired_donations e w =
     (let now = utcnow e;
          deleted_count = length (filter (\<lambda>d. expires_at d < now) (donations w))
      in if \<not> commit_ok e
         then \<lparr>result = Inl StoreUnavailable, state = w, effects = []\<rparr>
         else \<lparr>result = Inr (''Successfully deleted '' @ str_nat deleted_count
                              @ '' expired donations.''),
               state = w\<lparr>donations := filter (\<lambda>d. \<not> expires_at d < now) (donations w)\<rparr>,
               effects = [Commit]\<rparr>)"

text \<open>
  \<open>GET /api/donations/available\<close>: the rows with status \<open>AVAILABLE\<close>, ordered by
  \<open>expires_at\<close> ascending.
\<close>

definition get_available_donations :: "'ws world \<Rightarrow> Donation list" where
  "get_available_donations w =
     sort_key expires_at (filter (\<lambda>d. status d = AVAILABLE) (donations w))"

text \<open>Rounding to the nearest integer, a tie going to the even one.\<close>

definition round_half_even :: "rat \<Rightarrow> int" where
  "round_half_even x =
     (let f = \<lfloor>x\<rfloor>; r = x - of_int f
      in if r < 1 / 2 then f else if 1 / 2 < r then f + 1 else if even f then f else f + 1)"

text \<open>
  The double nearest to a rational number, a tie going to the even significand: for
  \<open>q \<noteq> 0\<close>, with \<open>2 ^ k \<le> \<bar>q\<bar> < 2 ^ (k + 1)\<close>, the multiple of \<open>2 ^ (k - 52)\<close> nearest
  to \<open>q\<close>. \<open>ilog2 a\<close> is that \<open>k\<close> for \<open>a > 0\<close>. The exponent range of a double is not
  modelled: the values computed below from a difference of two datetimes (at most some
  \<open>3.2 * 10 ^ 17\<close> microseconds, and not below one) are far inside it.
\<close>

definition ilog2 :: "rat \<Rightarrow> int" where
  "ilog2 a = (if 1 \<le> a then bitlen \<lfloor>a\<rfloor> - 1 else - bitlen (\<lceil>1 / a\<rceil> - 1))"

definition binary64 :: "rat \<Rightarrow> rat" where
  "binary64 q =
     (if q = 0 then 0
      else
        let e = ilog2 \<bar>q\<bar> - 52;
            m = round_half_even (\<bar>q\<bar> / power_int 2 e)
        in sgn q * of_int m * power_int 2 e)"

text \<open>
  Python's \<open>round(x, ndigits)\<close> on a float, for \<open>ndigits \<ge> 0\<close>: the exact value of \<open>x\<close>
  is rounded to the nearest multiple of \<open>10 ^ - ndigits\<close>, a tie going to the even one, and
  the result is the double nearest to that decimal.
\<close>

definition py_round :: "rat \<Rightarrow> nat \<Rightarrow> rat" where
  "py_round x ndigits =
     binary64 (of_int (round_half_even (x * 10 ^ ndigits)) / 10 ^ ndigits)"

text \<open>
  \<open>timedelta.total_seconds()\<close> of a difference of two datetimes: the number of
  microseconds divided by \<open>10 ^ 6\<close>, as a float.
\<close>

definition total_seconds :: "int \<Rightarrow> rat" where
  "total_seconds td = binary64 (of_int td / 1000000)"

text \<open>The body of the loop of \<open>get_map_markers\<close>: the marker of one row.\<close>

definition to_marker :: "datetime \<Rightarrow> Donation \<Rightarrow> MapMarker" where
  "to_marker now donation =
     (let time_diff = binary64 (total_seconds (expires_at donation - now) / 3600)
      in \<lparr>m_id = donation_id donation,
          m_latitude = latitude donation,
          m_longitude = longitude donation,
          m_food_type = food_type donation,
          m_quantity_kg = quantity_kg donation,
          m_status = status donation,
          m_donor_name = donor_name donation,
          m_expires_at = expires_at donation,
          time_until_expiry_hours = py_round time_diff 1\<rparr>)"

fun markers_loop :: "datetime \<Rightarrow> Donation list \<Rightarrow> MapMarker list \<Rightarrow> MapMarker list" where
  "markers_loop now [] markers = markers"
| "markers_loop now (donation # rest) markers =
     markers_loop now rest (markers @ [to_marker now donation])"

text \<open>
  \<open>GET /api/map/markers\<close>: the query has a filter and no \<open>order_by\<close>, so the rows come
  in the order the store holds them.
\<close>

definition get_map_markers :: "'ws env \<Rightarrow> 'ws world \<Rightarrow> MapMarker list" where
  "get_map_markers e w =
     (let donations_found = filter (\<lambda>d. status d = AVAILABLE) (donations w)
      in markers_loop (utcnow e) donations_found [])"

text \<open>\<open>PATCH /api/donations/{donation_id}/status\<close> and the dictionary it returns.\<close>

record StatusUpdated =
  su_message :: string
  su_donation_id :: int
  su_new_status :: DonationStatus

definition status_update_message :: "Donation \<Rightarrow> DonationStatus \<Rightarrow> message" where
  "status_update_message donation new_status =
     \<lparr>event = ''STATUS_UPDATE'',
      data = [(''id'', JInt (donation_id donation)),
              (''status'', JStr (DonationStatus_value new_status))]\<rparr>"

definition set_status :: "int \<Rightarrow> DonationStatus \<Rightarrow> Donation list \<Rightarrow> Donation list" where
  "set_status i new_status rows =
     map (\<lambda>d. if donation_id d = i then d\<lparr>status := new_status\<rparr> else d) rows"

definition update_donation_status ::
  "'ws env \<Rightarrow> int \<Rightarrow> DonationStatus \<Rightarrow> 'ws world \<Rightarrow> ('ws, StatusUpdated) outcome" where
  "update_donation_status e i new_status w =
     (case find (\<lambda>d. donation_id d = i) (donations w) of
        None \<Rightarrow> \<lparr>result = Inl NotFound, state = w, effects = []\<rparr>
      | Some donation \<Rightarrow>
          if \<not> commit_ok e
          then \<lparr>result = Inl StoreUnavailable, state = w, effects = []\<rparr>
          else broadcast_and_return e (status_update_message donation new_status)
                 \<lparr>su_message = ''Status updated'', su_donation_id = i,
                  su_new_status = new_status\<rparr>
                 (w\<lparr>donations := set_status i new_status (donations w)\<rparr>))"

text \<open>
  \<open>websocket_endpoint\<close>: the socket is registered when the task starts, and
  \<open>manager.disconnect\<close> runs when the task sees \<open>WebSocketDisconnect\<close>.
\<close>

definition websocket_open :: "'ws \<Rightarrow> 'ws world \<Rightarrow> 'ws world" where
  "websocket_open websocket w =
     w\<lparr>active_connections := connect websocket (active_connections w)\<rparr>"

definition websocket_closed :: "'ws \<Rightarrow> 'ws world \<Rightarrow> error + 'ws world" where
  "websocket_closed websocket w =
     (case disconnect websocket (active_connections w) of
        Inl err \<Rightarrow> Inl err
      | Inr conns \<Rightarrow> Inr (w\<lparr>active_connections := conns\<rparr>))"

section \<open>Reachable states\<close>

definition initial_world :: "'ws world" where
  "initial_world = \<lparr>donations = [], next_id = 1, active_connections = []\<rparr>"

inductive reachable :: "'ws world \<Rightarrow> bool" where
  start: "reachable initial_world"
| created: "reachable w \<Longrightarrow> reachable (state (create_donation e donation w))"
| updated: "reachable w \<Longrightarrow> reachable (state (update_donation_status e i new_status w))"
| swept: "reachable w \<Longrightarrow> reachable (state (cleanup_expired_donations e w))"
| opened: "reachable w \<Longrightarrow> reachable (websocket_open websocket w)"
| closed: "reachable w \<Longrightarrow> websocket_closed websocket w = Inr w' \<Longrightarrow> reachable w'"

section \<open>The transition graph of the specification\<close>

text \<open>
  The edges the specification's lifecycle section lists as legal; the source has no such
  table.
\<close>

fun spec_legal_transition :: "DonationStatus \<Rightarrow> DonationStatus \<Rightarrow> bool" where
  "spec_legal_transition AVAILABLE ASSIGNED = True"
| "spec_legal_transition ASSIGNED IN_TRANSIT = True"
| "spec_legal_transition IN_TRANSIT DELIVERED = True"
| "spec_legal_transition AVAILABLE CANCELLED = True"
| "spec_legal_transition ASSIGNED CANCELLED = True"
| "spec_legal_transition IN_TRANSIT CANCELLED = True"
| "spec_legal_transition _ _ = False"

section \<open>Example data\<close>

text \<open>
  The example of \<open>DonationCreate.Config\<close>, with the time of day of its \<open>expires_at\<close>
  (20:00:00) counted from the midnight before, and an environment in which the store
  acknowledges every commit and answers every read, every send returns and no other task
  runs during a broadcast.
\<close>

definition example_body :: DonationCreate where
  "example_body =
     \<lparr>dc_donor_name = ''Raj Restaurant'',
      dc_donor_phone = ''+919876543210'',
      dc_food_type = VEG,
      dc_quantity_kg = 31 / 2,
      dc_description = Some ''Biryani and curry - prepared 2 hours ago'',
      dc_latitude = 130827 / 10000,
      dc_longitude = 802707 / 10000,
      dc_address = ''123 Marina Beach Road, Chennai, Tamil Nadu 600001'',
      dc_expires_at = 72000000000\<rparr>"

definition calm :: "datetime \<Rightarrow> nat env" where
  "calm now =
     \<lparr>utcnow = now, commit_ok = True, reload_ok = True, send_json = (\<lambda>c m. True),
      other_tasks = []\<rparr>"

definition example_row :: "int \<Rightarrow> DonationStatus \<Rightarrow> datetime \<Rightarrow> Donation" where
  "example_row i s t = (new_row i 0 example_body)\<lparr>status := s, expires_at := t\<rparr>"

section \<open>The connection manager: lemmas\<close>

lemma broadcast_sends_eq:
  "broadcast_sends send msg cs disconnected attempts =
     (disconnected @ filter (\<lambda>c. \<not> send c msg) cs,
      attempts @ map (\<lambda>c. (c, send c msg)) cs)"
  by (induction cs arbitrary: disconnected attempts) simp_all

lemma broadcast_cleanup_prefix:
  "\<forall>y \<in> set ys. \<not> dead y \<Longrightarrow>
     broadcast_cleanup (filter dead cs) (ys @ cs) = Inr (ys @ filter (\<lambda>c. \<not> dead c) cs)"
proof (induction cs arbitrary: ys)
  case Nil
  then show ?case by simp
next
  case (Cons c cs)
  show ?case
  proof (cases "dead c")
    case True
    with Cons.prems have "c \<notin> set ys" by blast
    then have "list_remove c (ys @ c # cs) = Inr (ys @ cs)"
      by (simp add: list_remove_def remove1_append)
    with True Cons.IH [OF Cons.prems] show ?thesis by simp
  next
    case False
    with Cons.prems have "\<forall>y \<in> set (ys @ [c]). \<not> dead y" by simp
    from Cons.IH [OF this] False show ?thesis by simp
  qed
qed

lemma broadcast_cleanup_filter:
  "broadcast_cleanup (filter dead cs) cs = Inr (filter (\<lambda>c. \<not> dead c) cs)"
  using broadcast_cleanup_prefix [of "[]" dead cs] by simp

lemma broadcast_quiet:
  "broadcast [] send msg cs =
     Inr (filter (\<lambda>c. send c msg) cs, map (\<lambda>c. (c, send c msg)) cs)"
  using broadcast_cleanup_filter [of "\<lambda>c. \<not> send c msg" cs]
  by (simp add: broadcast_def broadcast_sends_eq)

lemma received_attempts:
  "received (map (\<lambda>c. (c, ok c)) cs) = filter ok cs"
  by (induction cs) (simp_all add: received_def)

section \<open>The handlers: lemmas\<close>

lemma broadcast_and_return_quiet:
  "reload_ok e \<Longrightarrow> other_tasks e = [] \<Longrightarrow>
     broadcast_and_return e msg r w =
       \<lparr>result = Inr r,
        state = w\<lparr>active_connections :=
                    filter (\<lambda>c. send_json e c msg) (active_connections w)\<rparr>,
        effects = [Commit,
                   Broadcast msg (map (\<lambda>c. (c, send_json e c msg)) (active_connections w))]\<rparr>"
  by (simp add: broadcast_and_return_def broadcast_quiet)

lemma broadcast_and_return_table:
  "donations (state (broadcast_and_return e msg r w)) = donations w"
  "next_id (state (broadcast_and_return e msg r w)) = next_id w"
  by (simp_all add: broadcast_and_return_def split: sum.splits prod.splits)

lemma broadcast_and_return_effects:
  "\<not> reload_ok e \<Longrightarrow> effects (broadcast_and_return e msg r w) = [Commit]"
  "reload_ok e \<Longrightarrow>
     \<exists>attempts. effects (broadcast_and_return e msg r w) = [Commit, Broadcast msg attempts]"
  by (simp_all add: broadcast_and_return_def split: sum.splits prod.splits)

lemma example_body_valid: "DonationCreate_valid example_body"
  by (simp add: DonationCreate_valid_def example_body_def phone_pattern_def is_digit_def)

lemma valid_expires_at:
  "DonationCreate_valid (donation\<lparr>dc_expires_at := t\<rparr>) = DonationCreate_valid donation"
  by (simp add: DonationCreate_valid_def)

lemma create_donation_ok:
  "DonationCreate_valid donation \<Longrightarrow> commit_ok e \<Longrightarrow>
     create_donation e donation w =
       broadcast_and_return e (new_donation_message (new_row (next_id w) (utcnow e) donation))
         (new_row (next_id w) (utcnow e) donation)
         (w\<lparr>donations := donations w @ [new_row (next_id w) (utcnow e) donation],
            next_id := next_id w + 1\<rparr>)"
  by (simp add: create_donation_def Let_def)

lemma update_donation_status_ok:
  "find (\<lambda>d. donation_id d = i) (donations w) = Some donation \<Longrightarrow> commit_ok e \<Longrightarrow>
     update_donation_status e i new_status w =
       broadcast_and_return e (status_update_message donation new_status)
         \<lparr>su_message = ''Status updated'', su_donation_id = i, su_new_status = new_status\<rparr>
         (w\<lparr>donations := set_status i new_status (donations w)\<rparr>)"
  by (simp add: update_donation_status_def)

lemma find_Some_id:
  "find (\<lambda>d. donation_id d = i) rows = Some donation \<Longrightarrow> donation_id donation = i"
  by (induction rows) (auto split: if_splits)

lemma donations_create_donation:
  "donations (state (create_donation e donation w)) =
     (if DonationCreate_valid donation \<and> commit_ok e
      then donations w @ [new_row (next_id w) (utcnow e) donation] else donations w)"
  by (simp add: create_donation_def Let_def broadcast_and_return_table)

lemma donations_update_donation_status:
  "donations (state (update_donation_status e i new_status w)) =
     (if find (\<lambda>d. donation_id d = i) (donations w) \<noteq> None \<and> commit_ok e
      then set_status i new_status (donations w) else donations w)"
  by (simp add: update_donation_status_def broadcast_and_return_table split: option.splits)

lemma donations_cleanup_expired_donations:
  "donations (state (cleanup_expired_donations e w)) =
     (if commit_ok e then filter (\<lambda>d. \<not> expires_at d < utcnow e) (donations w)
      else donations w)"
  by (simp add: cleanup_expired_donations_def Let_def)

lemma calm_simps [simp]:
  "utcnow (calm now) = now" "commit_ok (calm now)" "reload_ok (calm now)"
  "send_json (calm now) c m" "other_tasks (calm now) = []"
  by (simp_all add: calm_def)

lemma example_row_simps [simp]:
  "donation_id (example_row i s t) = i" "status (example_row i s t) = s"
  "expires_at (example_row i s t) = t" "assigned_volunteer_id (example_row i s t) = None"
  "assigned_at (example_row i s t) = None"
  "(example_row i s t)\<lparr>status := s'\<rparr> = example_row i s' t"
  by (simp_all add: example_row_def new_row_def)

section \<open>The lifecycle: which status updates are accepted\<close>

text \<open>
  C1, as stated: a status update succeeds only along the edges of the transition graph,
  and any other request fails and leaves the donation unchanged. The handler accepts a
  request outside the graph: a delivered donation is set back to \<open>AVAILABLE\<close>, and a
  self-transition is answered with success.
\<close>

theorem transition_graph_counterexample:
  "\<not> spec_legal_transition DELIVERED AVAILABLE
   \<and> \<not> spec_legal_transition AVAILABLE AVAILABLE
   \<and> result (update_donation_status (calm 0) 1 AVAILABLE
        \<lparr>donations = [example_row 1 DELIVERED 9], next_id = 2, active_connections = []\<rparr>)
       = Inr \<lparr>su_message = ''Status updated'', su_donation_id = 1, su_new_status = AVAILABLE\<rparr>
   \<and> donations (state (update_donation_status (calm 0) 1 AVAILABLE
        \<lparr>donations = [example_row 1 DELIVERED 9], next_id = 2, active_connections = []\<rparr>))
       = [example_row 1 AVAILABLE 9]
   \<and> result (update_donation_status (calm 0) 1 AVAILABLE
        \<lparr>donations = [example_row 1 AVAILABLE 9], next_id = 2, active_connections = []\<rparr>)
       = Inr \<lparr>su_message = ''Status updated'', su_donation_id = 1, su_new_status = AVAILABLE\<rparr>"
  by (simp add: update_donation_status_def broadcast_and_return_quiet set_status_def)

text \<open>
  C1, amended: the handler has no transition table. A request for an id that no row has
  fails with \<open>NotFound\<close> and changes nothing; a request for an id that is present, with
  the commit acknowledged, is accepted whatever the current and the requested status are:
  it sets the status of the rows with that id to the requested one and leaves every other
  field and every other row as they were, and, when the read of the row and the broadcast
  that follow the commit go through undisturbed, it answers with success.
\<close>

theorem update_donation_status_any_status:
  "(find (\<lambda>d. donation_id d = i) (donations w) = None \<longrightarrow>
      update_donation_status e i new_status w =
        \<lparr>result = Inl NotFound, state = w, effects = []\<rparr>)
   \<and> (find (\<lambda>d. donation_id d = i) (donations w) \<noteq> None \<and> commit_ok e \<longrightarrow>
        donations (state (update_donation_status e i new_status w)) =
          map (\<lambda>d. if donation_id d = i then d\<lparr>status := new_status\<rparr> else d) (donations w)
        \<and> next_id (state (update_donation_status e i new_status w)) = next_id w
        \<and> (reload_ok e \<and> other_tasks e = [] \<longrightarrow>
             result (update_donation_status e i new_status w) =
               Inr \<lparr>su_message = ''Status updated'', su_donation_id = i,
                    su_new_status = new_status\<rparr>))"
  by (auto simp: update_donation_status_def broadcast_and_return_quiet
      broadcast_and_return_table set_status_def)

theorem update_donation_status_any_status_witness:
  "find (\<lambda>d. donation_id d = 2)
      (donations \<lparr>donations = [example_row 1 DELIVERED 9], next_id = 2,
                  active_connections = [] :: nat list\<rparr>) = None
   \<and> result (update_donation_status (calm 0) 2 ASSIGNED
        \<lparr>donations = [example_row 1 DELIVERED 9], next_id = 2, active_connections = []\<rparr>)
       = Inl NotFound
   \<and> find (\<lambda>d. donation_id d = 1)
      (donations \<lparr>donations = [example_row 1 DELIVERED 9], next_id = 2,
                  active_connections = [] :: nat list\<rparr>) \<noteq> None
   \<and> commit_ok (calm 0) \<and> reload_ok (calm 0) \<and> other_tasks (calm 0) = []
   \<and> donations (state (update_donation_status (calm 0) 1 IN_TRANSIT
        \<lparr>donations = [example_row 1 DELIVERED 9], next_id = 2, active_connections = []\<rparr>))
       = [example_row 1 IN_TRANSIT 9]
   \<and> result (update_donation_status (calm 0) 1 IN_TRANSIT
        \<lparr>donations = [example_row 1 DELIVERED 9], next_id = 2, active_connections = []\<rparr>)
       = Inr \<lparr>su_message = ''Status updated'', su_donation_id = 1, su_new_status = IN_TRANSIT\<rparr>"
  using update_donation_status_any_status
      [where i = 2 and e = "calm 0" and new_status = ASSIGNED
         and w = "\<lparr>donations = [example_row 1 DELIVERED 9], next_id = 2,
                   active_connections = []\<rparr>"]
    update_donation_status_any_status
      [where i = 1 and e = "calm 0" and new_status = IN_TRANSIT
         and w = "\<lparr>donations = [example_row 1 DELIVERED 9], next_id = 2,
                   active_connections = []\<rparr>"]
  by simp

section \<open>The broadcast hub\<close>

text \<open>
  C2: a failed send is not reported to the caller that triggered the event, and every
  observer that remains registered after a broadcast has received the event. The claim
  holds of a pass during which no other task touches the list (\<open>broadcast_quiet\<close>), and
  fails when one does. With observers 1, 2 and 3, the send to 2 failing, and the task of
  socket 2 running \<open>manager.disconnect\<close> while the broadcast waits for the send to 3, the
  second loop's \<open>remove\<close> raises \<open>ValueError\<close>: the status update that triggered the event
  ends with that exception although its write is committed. With all sends succeeding and
  the task of socket 1 disconnecting while the broadcast waits for the send to 1, the loop
  goes on at position 1 of the shortened list: observer 2 is never sent to, and remains
  registered.
\<close>

theorem broadcast_interleaved_failure:
  "broadcast [[], [], [Disconnect 2]] (\<lambda>c m. c \<noteq> (2::nat))
       \<lparr>event = ''STATUS_UPDATE'', data = [(''id'', JInt 1), (''status'', JStr ''ASSIGNED'')]\<rparr>
       [1, 2, 3]
     = Inl (ValueError, [1, 3], [(1, True), (2, False), (3, True)])
   \<and> result (update_donation_status
         \<lparr>utcnow = 0, commit_ok = True, reload_ok = True,
          send_json = (\<lambda>c m. c \<noteq> (2::nat)), other_tasks = [[], [], [Disconnect 2]]\<rparr>
         1 ASSIGNED
         \<lparr>donations = [example_row 1 AVAILABLE 9], next_id = 2,
          active_connections = [1, 2, 3]\<rparr>)
       = Inl ValueError
   \<and> donations (state (update_donation_status
         \<lparr>utcnow = 0, commit_ok = True, reload_ok = True,
          send_json = (\<lambda>c m. c \<noteq> (2::nat)), other_tasks = [[], [], [Disconnect 2]]\<rparr>
         1 ASSIGNED
         \<lparr>donations = [example_row 1 AVAILABLE 9], next_id = 2,
          active_connections = [1, 2, 3]\<rparr>))
       = [example_row 1 ASSIGNED 9]
   \<and> broadcast [[Disconnect 1]] (\<lambda>c m. True)
       \<lparr>event = ''STATUS_UPDATE'', data = [(''id'', JInt 1), (''status'', JStr ''ASSIGNED'')]\<rparr>
       [1::nat, 2, 3]
     = Inr ([2, 3], [(1, True), (3, True)])
   \<and> received [(1::nat, True), (3, True)] = [1, 3]"
  by (simp add: broadcast_def run_tasks_def disconnect_def list_remove_def received_def
      update_donation_status_def broadcast_and_return_def set_status_def
      status_update_message_def)

section \<open>The expiry sweep\<close>

text \<open>
  C3, as stated: the sweep emits one \<open>Removed\<close> event per deleted entity to the
  broadcast hub. With one expired row and one registered connection, the handler deletes
  the row and answers with the count 1, and its only effect is the commit:
  \<open>manager.broadcast\<close> is not called.
\<close>

theorem sweep_emits_counterexample:
  "cleanup_expired_donations (calm 10)
     \<lparr>donations = [example_row 1 AVAILABLE 9], next_id = 2, active_connections = [7]\<rparr>
   = \<lparr>result = Inr ''Successfully deleted 1 expired donations.'',
      state = \<lparr>donations = [], next_id = 2, active_connections = [7]\<rparr>,
      effects = [Commit]\<rparr>"
  by (simp add: cleanup_expired_donations_def)

text \<open>
  C3, amended: with the commit acknowledged, \<open>cleanup_expired_donations\<close> deletes the
  rows whose \<open>expires_at\<close> is strictly before \<open>utcnow()\<close>, whatever their status, and
  keeps all others; its message carries the number of deleted rows; it broadcasts nothing
  and leaves the connections as they are.
\<close>

theorem cleanup_expired_donations_deletes:
  assumes "commit_ok e"
  shows "donations (state (cleanup_expired_donations e w)) =
           filter (\<lambda>d. \<not> expires_at d < utcnow e) (donations w)
   \<and> result (cleanup_expired_donations e w) =
       Inr (''Successfully deleted ''
            @ str_nat (length (filter (\<lambda>d. expires_at d < utcnow e) (donations w)))
            @ '' expired donations.'')
   \<and> length (donations (state (cleanup_expired_donations e w)))
       + length (filter (\<lambda>d. expires_at d < utcnow e) (donations w)) = length (donations w)
   \<and> effects (cleanup_expired_donations e w) = [Commit]
   \<and> active_connections (state (cleanup_expired_donations e w)) = active_connections w"
proof -
  have "length (filter (\<lambda>d. expires_at d < utcnow e) (donations w))
          + length (filter (\<lambda>d. \<not> expires_at d < utcnow e) (donations w))
          = length (donations w)"
    by (rule sum_length_filter_compl)
  with assms show ?thesis
    by (simp add: cleanup_expired_donations_def Let_def)
qed

theorem cleanup_expired_donations_deletes_witness:
  "commit_ok (calm 5)
   \<and> donations (state (cleanup_expired_donations (calm 5)
        \<lparr>donations = [example_row 1 ASSIGNED 7, example_row 2 AVAILABLE 3,
                      example_row 3 DELIVERED 5, example_row 4 CANCELLED 4],
         next_id = 5, active_connections = []\<rparr>))
       = [example_row 1 ASSIGNED 7, example_row 3 DELIVERED 5]
   \<and> result (cleanup_expired_donations (calm 5)
        \<lparr>donations = [example_row 1 ASSIGNED 7, example_row 2 AVAILABLE 3,
                      example_row 3 DELIVERED 5, example_row 4 CANCELLED 4],
         next_id = 5, active_connections = []\<rparr>)
       = Inr ''Successfully deleted 2 expired donations.''"
  using cleanup_expired_donations_deletes
    [of "calm 5" "\<lparr>donations = [example_row 1 ASSIGNED 7, example_row 2 AVAILABLE 3,
                      example_row 3 DELIVERED 5, example_row 4 CANCELLED 4],
         next_id = 5, active_connections = []\<rparr>"]
  by simp

section \<open>The two queries for available donations\<close>

lemma markers_loop_eq: "markers_loop now rows markers = markers @ map (to_marker now) rows"
  by (induction rows arbitrary: markers) simp_all

lemma get_map_markers_eq:
  "get_map_markers e w =
     map (to_marker (utcnow e)) (filter (\<lambda>d. status d = AVAILABLE) (donations w))"
  by (simp add: get_map_markers_def markers_loop_eq)

lemma to_marker_simps [simp]:
  "m_status (to_marker now d) = status d" "m_expires_at (to_marker now d) = expires_at d"
  "m_id (to_marker now d) = donation_id d"
  by (simp_all add: to_marker_def Let_def)

text \<open>
  C4, as stated: the list of \<open>get_map_markers\<close> is sorted by ascending expiry. After a
  donation expiring in two hours and then one expiring in one hour have been created, the
  markers come in the order of creation, the later expiry first.
\<close>

theorem markers_sorted_counterexample:
  "map m_expires_at (get_map_markers (calm 0)
      (state (create_donation (calm 0) (example_body\<lparr>dc_expires_at := 3600000000\<rparr>)
        (state (create_donation (calm 0) (example_body\<lparr>dc_expires_at := 7200000000\<rparr>)
          initial_world)))))
     = [7200000000, 3600000000]
   \<and> \<not> sorted [7200000000, 3600000000 :: int]"
  by (simp add: get_map_markers_eq create_donation_ok valid_expires_at example_body_valid
      broadcast_and_return_quiet initial_world_def new_row_def)

text \<open>
  C4, amended: \<open>get_available_donations\<close> returns exactly the rows with status
  \<open>AVAILABLE\<close>, sorted by ascending \<open>expires_at\<close>; \<open>get_map_markers\<close> returns one marker
  for each row with status \<open>AVAILABLE\<close>, in the order in which the store holds the rows.
\<close>

theorem available_filtered_and_sorted:
  "(\<forall>d \<in> set (get_available_donations w). status d = AVAILABLE)
   \<and> sorted (map expires_at (get_available_donations w))
   \<and> mset (get_available_donations w) =
       mset (filter (\<lambda>d. status d = AVAILABLE) (donations w))
   \<and> get_map_markers e w =
       map (to_marker (utcnow e)) (filter (\<lambda>d. status d = AVAILABLE) (donations w))
   \<and> (\<forall>m \<in> set (get_map_markers e w). m_status m = AVAILABLE)"
  by (auto simp: get_available_donations_def get_map_markers_eq)

theorem available_filtered_and_sorted_witness:
  "get_available_donations
     \<lparr>donations = [example_row 1 AVAILABLE 7, example_row 2 ASSIGNED 1,
                   example_row 3 AVAILABLE 3],
      next_id = 4, active_connections = [] :: nat list\<rparr>
     = [example_row 3 AVAILABLE 3, example_row 1 AVAILABLE 7]
   \<and> map status [example_row 3 AVAILABLE 3, example_row 1 AVAILABLE 7] = [AVAILABLE, AVAILABLE]
   \<and> sorted (map expires_at [example_row 3 AVAILABLE 3, example_row 1 AVAILABLE 7])
   \<and> map m_id (get_map_markers (calm 0)
        \<lparr>donations = [example_row 1 AVAILABLE 7, example_row 2 ASSIGNED 1,
                      example_row 3 AVAILABLE 3],
         next_id = 4, active_connections = []\<rparr>) = [1, 3]"
  using available_filtered_and_sorted
    [of "\<lparr>donations = [example_row 1 AVAILABLE 7, example_row 2 ASSIGNED 1,
                   example_row 3 AVAILABLE 3],
      next_id = 4, active_connections = [] :: nat list\<rparr>" "calm 0"]
  by (simp add: get_available_donations_def)

section \<open>The marker projection\<close>





lemma power_int_ilog2_gt:
  assumes "0 < a"
  shows "a < power_int 2 (ilog2 a + 1)"
proof (cases "1 \<le> a")
  case True
  then have n: "0 < \<lfloor>a\<rfloor>" by simp
  from bitlen_bounds [OF n] have "\<lfloor>a\<rfloor> < 2 ^ nat (bitlen \<lfloor>a\<rfloor>)" ..
  then have "\<lfloor>a\<rfloor> + 1 \<le> 2 ^ nat (bitlen \<lfloor>a\<rfloor>)" by simp
  then have "(of_int (\<lfloor>a\<rfloor> + 1) :: rat) \<le> of_int (2 ^ nat (bitlen \<lfloor>a\<rfloor>))"
    by (simp only: of_int_le_iff)
  then have "(of_int \<lfloor>a\<rfloor> :: rat) + 1 \<le> 2 ^ nat (bitlen \<lfloor>a\<rfloor>)" by simp
  moreover have "a < of_int \<lfloor>a\<rfloor> + 1" by linarith
  ultimately have "a < 2 ^ nat (bitlen \<lfloor>a\<rfloor>)" by linarith
  moreover have "power_int (2::rat) (bitlen \<lfloor>a\<rfloor>) = 2 ^ nat (bitlen \<lfloor>a\<rfloor>)"
    using bitlen_nonneg [of "\<lfloor>a\<rfloor>"] by (simp add: power_int_nonneg_exp)
  ultimately show ?thesis using True by (simp add: ilog2_def)
next
  case False
  let ?m = "\<lceil>1 / a\<rceil> - 1"
  from False assms have "1 < 1 / a" by simp
  then have "1 < \<lceil>1 / a\<rceil>" by (simp add: less_ceiling_iff)
  then have m: "0 < ?m" by simp
  from bitlen_bounds [OF m] have b: "2 ^ nat (bitlen ?m - 1) \<le> ?m" ..
  from m have one: "1 \<le> bitlen ?m"
    using bitlen_eq_zero_iff [of ?m] bitlen_nonneg [of ?m] by linarith
  from b have "(of_int (2 ^ nat (bitlen ?m - 1)) :: rat) \<le> of_int ?m"
    by (simp only: of_int_le_iff)
  then have "(2::rat) ^ nat (bitlen ?m - 1) \<le> of_int \<lceil>1 / a\<rceil> - 1" by simp
  moreover have "of_int \<lceil>1 / a\<rceil> - 1 < 1 / a" by linarith
  ultimately have lt: "(2::rat) ^ nat (bitlen ?m - 1) < 1 / a" by linarith
  have pos: "(0::rat) < 2 ^ nat (bitlen ?m - 1)" by simp
  from lt assms pos have "a < 1 / 2 ^ nat (bitlen ?m - 1)"
    by (simp add: field_simps)
  moreover from one have "power_int (2::rat) (- bitlen ?m + 1) = 1 / 2 ^ nat (bitlen ?m - 1)"
  proof -
    have "- bitlen ?m + 1 = - (bitlen ?m - 1)" by simp
    then have "power_int (2::rat) (- bitlen ?m + 1) = 1 / power_int 2 (bitlen ?m - 1)"
      by (simp only: power_int_minus_divide)
    with one show ?thesis by (simp add: power_int_nonneg_exp)
  qed
  ultimately show ?thesis using False by (simp add: ilog2_def)
qed










section \<open>Store write and event emission\<close>

lemma broadcast_and_return_sends:
  assumes "reload_ok e"
  shows "\<exists>attempts. effects (broadcast_and_return e msg r w) = [Commit, Broadcast msg attempts]
           \<and> (other_tasks e = [] \<longrightarrow> map fst attempts = active_connections w)"
proof (cases "other_tasks e = []")
  case True
  have "map fst (map (\<lambda>c. (c, send_json e c msg)) (active_connections w))
          = active_connections w"
    by (simp add: comp_def)
  with True assms show ?thesis by (simp add: broadcast_and_return_quiet)
next
  case False
  with broadcast_and_return_effects(2) [OF assms, of msg r w] show ?thesis by simp
qed

text \<open>
  C6, as stated: if the store write succeeds, the event is emitted. When the commit is
  acknowledged and the read of the committed row that follows it raises
  (\<open>db.refresh\<close> in \<open>create_donation\<close>, the reload of \<open>donation.id\<close> in
  \<open>update_donation_status\<close>), the row is written and \<open>manager.broadcast\<close> is not called.
\<close>

theorem commit_then_broadcast_counterexample:
  "commit_ok ((calm 5)\<lparr>reload_ok := False\<rparr>)
   \<and> map (\<lambda>d. (donation_id d, status d))
        (donations (state (create_donation ((calm 5)\<lparr>reload_ok := False\<rparr>) example_body
           (initial_world\<lparr>active_connections := [4]\<rparr>)))) = [(1, AVAILABLE)]
   \<and> effects (create_donation ((calm 5)\<lparr>reload_ok := False\<rparr>) example_body
        (initial_world\<lparr>active_connections := [4]\<rparr>)) = [Commit]
   \<and> map (\<lambda>d. (donation_id d, status d))
        (donations (state (update_donation_status ((calm 5)\<lparr>reload_ok := False\<rparr>) 1 ASSIGNED
           \<lparr>donations = [example_row 1 AVAILABLE 9], next_id = 2,
            active_connections = [4]\<rparr>))) = [(1, ASSIGNED)]
   \<and> effects (update_donation_status ((calm 5)\<lparr>reload_ok := False\<rparr>) 1 ASSIGNED
        \<lparr>donations = [example_row 1 AVAILABLE 9], next_id = 2, active_connections = [4]\<rparr>)
       = [Commit]"
  by (simp add: calm_def create_donation_def update_donation_status_def Let_def
      example_body_valid broadcast_and_return_def initial_world_def set_status_def
      new_row_def)

text \<open>
  C6, amended: in \<open>create_donation\<close> (on a valid body) and in \<open>update_donation_status\<close>
  (on an id that is present), a commit that fails leaves the table as it was and nothing
  is broadcast. A commit that is acknowledged writes the row (the new row with status
  \<open>AVAILABLE\<close>, or the new status on the rows with the id); \<open>manager.broadcast\<close> is then
  called once, after the commit, with the \<open>NEW_DONATION\<close> or \<open>STATUS_UPDATE\<close> event of
  that row, provided the read of the committed row that precedes the call returns; if
  that read raises, the write stands and no event is emitted. In a broadcast that no
  other task disturbs, every registered connection is sent to.
\<close>

theorem commit_then_broadcast:
  "(DonationCreate_valid donation \<longrightarrow>
      (\<not> commit_ok e \<longrightarrow>
         result (create_donation e donation w) = Inl StoreUnavailable
       \<and> donations (state (create_donation e donation w)) = donations w
       \<and> effects (create_donation e donation w) = [])
    \<and> (commit_ok e \<longrightarrow>
         donations (state (create_donation e donation w)) =
           donations w @
             [\<lparr>donation_id = next_id w,
               donor_name = dc_donor_name donation,
               donor_phone = dc_donor_phone donation,
               food_type = dc_food_type donation,
               quantity_kg = dc_quantity_kg donation,
               description = dc_description donation,
               location = (dc_longitude donation, dc_latitude donation),
               latitude = dc_latitude donation,
               longitude = dc_longitude donation,
               address = dc_address donation,
               status = AVAILABLE,
               created_at = utcnow e,
               expires_at = dc_expires_at donation,
               assigned_volunteer_id = None,
               assigned_at = None\<rparr>]
       \<and> (\<not> reload_ok e \<longrightarrow> effects (create_donation e donation w) = [Commit])
       \<and> (reload_ok e \<longrightarrow>
            (\<exists>attempts.
               effects (create_donation e donation w) =
                 [Commit,
                  Broadcast
                    \<lparr>event = ''NEW_DONATION'',
                     data = [(''id'', JInt (next_id w)),
                             (''latitude'', JNum (dc_latitude donation)),
                             (''longitude'', JNum (dc_longitude donation)),
                             (''food_type'', JStr (FoodType_value (dc_food_type donation))),
                             (''quantity_kg'', JNum (dc_quantity_kg donation)),
                             (''donor_name'', JStr (dc_donor_name donation)),
                             (''status'', JStr ''AVAILABLE'')]\<rparr>
                    attempts]
             \<and> (other_tasks e = [] \<longrightarrow> map fst attempts = active_connections w)))))
   \<and> (find (\<lambda>d. donation_id d = i) (donations w) \<noteq> None \<longrightarrow>
      (\<not> commit_ok e \<longrightarrow>
         result (update_donation_status e i new_status w) = Inl StoreUnavailable
       \<and> donations (state (update_donation_status e i new_status w)) = donations w
       \<and> effects (update_donation_status e i new_status w) = [])
    \<and> (commit_ok e \<longrightarrow>
         donations (state (update_donation_status e i new_status w)) =
           map (\<lambda>d. if donation_id d = i then d\<lparr>status := new_status\<rparr> else d) (donations w)
       \<and> (\<not> reload_ok e \<longrightarrow> effects (update_donation_status e i new_status w) = [Commit])
       \<and> (reload_ok e \<longrightarrow>
            (\<exists>attempts.
               effects (update_donation_status e i new_status w) =
                 [Commit,
                  Broadcast
                    \<lparr>event = ''STATUS_UPDATE'',
                     data = [(''id'', JInt i),
                             (''status'', JStr (DonationStatus_value new_status))]\<rparr>
                    attempts]
             \<and> (other_tasks e = [] \<longrightarrow> map fst attempts = active_connections w)))))"
proof -
  have create_failed:
    "result (create_donation e donation w) = Inl StoreUnavailable
       \<and> donations (state (create_donation e donation w)) = donations w
       \<and> effects (create_donation e donation w) = []"
    if "DonationCreate_valid donation" "\<not> commit_ok e"
    using that by (simp add: create_donation_def Let_def)
  have create_written:
    "donations (state (create_donation e donation w)) =
       donations w @
         [\<lparr>donation_id = next_id w,
           donor_name = dc_donor_name donation,
           donor_phone = dc_donor_phone donation,
           food_type = dc_food_type donation,
           quantity_kg = dc_quantity_kg donation,
           description = dc_description donation,
           location = (dc_longitude donation, dc_latitude donation),
           latitude = dc_latitude donation,
           longitude = dc_longitude donation,
           address = dc_address donation,
           status = AVAILABLE,
           created_at = utcnow e,
           expires_at = dc_expires_at donation,
           assigned_volunteer_id = None,
           assigned_at = None\<rparr>]"
    if "DonationCreate_valid donation" "commit_ok e"
    using that by (simp add: donations_create_donation new_row_def)
  have create_silent: "effects (create_donation e donation w) = [Commit]"
    if "DonationCreate_valid donation" "commit_ok e" "\<not> reload_ok e"
    using that by (simp add: create_donation_ok broadcast_and_return_effects)
  have create_emitted:
    "\<exists>attempts.
       effects (create_donation e donation w) =
         [Commit,
          Broadcast
            \<lparr>event = ''NEW_DONATION'',
             data = [(''id'', JInt (next_id w)),
                     (''latitude'', JNum (dc_latitude donation)),
                     (''longitude'', JNum (dc_longitude donation)),
                     (''food_type'', JStr (FoodType_value (dc_food_type donation))),
                     (''quantity_kg'', JNum (dc_quantity_kg donation)),
                     (''donor_name'', JStr (dc_donor_name donation)),
                     (''status'', JStr ''AVAILABLE'')]\<rparr>
            attempts]
       \<and> (other_tasks e = [] \<longrightarrow> map fst attempts = active_connections w)"
    if "DonationCreate_valid donation" "commit_ok e" "reload_ok e"
    using that
      broadcast_and_return_sends [OF that(3),
        of "new_donation_message (new_row (next_id w) (utcnow e) donation)"
           "new_row (next_id w) (utcnow e) donation"
           "w\<lparr>donations := donations w @ [new_row (next_id w) (utcnow e) donation],
              next_id := next_id w + 1\<rparr>"]
    by (simp add: create_donation_ok new_donation_message_def new_row_def)
  have update_failed:
    "result (update_donation_status e i new_status w) = Inl StoreUnavailable
       \<and> donations (state (update_donation_status e i new_status w)) = donations w
       \<and> effects (update_donation_status e i new_status w) = []"
    if "find (\<lambda>d. donation_id d = i) (donations w) \<noteq> None" "\<not> commit_ok e"
    using that by (auto simp: update_donation_status_def)
  have update_written:
    "donations (state (update_donation_status e i new_status w)) =
       map (\<lambda>d. if donation_id d = i then d\<lparr>status := new_status\<rparr> else d) (donations w)"
    if "find (\<lambda>d. donation_id d = i) (donations w) \<noteq> None" "commit_ok e"
    using that by (simp add: donations_update_donation_status set_status_def)
  have update_silent: "effects (update_donation_status e i new_status w) = [Commit]"
    if "find (\<lambda>d. donation_id d = i) (donations w) \<noteq> None" "commit_ok e" "\<not> reload_ok e"
    using that by (auto simp: update_donation_status_ok broadcast_and_return_effects)
  have update_emitted:
    "\<exists>attempts.
       effects (update_donation_status e i new_status w) =
         [Commit,
          Broadcast
            \<lparr>event = ''STATUS_UPDATE'',
             data = [(''id'', JInt i),
                     (''status'', JStr (DonationStatus_value new_status))]\<rparr>
            attempts]
       \<and> (other_tasks e = [] \<longrightarrow> map fst attempts = active_connections w)"
    if found: "find (\<lambda>d. donation_id d = i) (donations w) \<noteq> None"
      and ok: "commit_ok e" "reload_ok e"
  proof -
    from found obtain d where d: "find (\<lambda>d. donation_id d = i) (donations w) = Some d"
      by auto
    from find_Some_id [OF d] d ok
      broadcast_and_return_sends [OF ok(2),
        of "status_update_message d new_status"
           "\<lparr>su_message = ''Status updated'', su_donation_id = i,
             su_new_status = new_status\<rparr>"
           "w\<lparr>donations := set_status i new_status (donations w)\<rparr>"]
    show ?thesis
      by (simp add: update_donation_status_ok status_update_message_def)
  qed
  from create_failed create_written create_silent create_emitted
    update_failed update_written update_silent update_emitted
  show ?thesis by blast
qed

theorem commit_then_broadcast_witness:
  "DonationCreate_valid example_body
   \<and> \<not> commit_ok ((calm 5)\<lparr>commit_ok := False\<rparr>)
   \<and> effects (create_donation ((calm 5)\<lparr>commit_ok := False\<rparr>) example_body
        (initial_world\<lparr>active_connections := [4]\<rparr>)) = []
   \<and> commit_ok (calm 5) \<and> reload_ok (calm 5) \<and> other_tasks (calm 5) = []
   \<and> effects (create_donation (calm 5) example_body
        (initial_world\<lparr>active_connections := [4]\<rparr>)) =
       [Commit,
        Broadcast
          \<lparr>event = ''NEW_DONATION'',
           data = [(''id'', JInt 1), (''latitude'', JNum (130827 / 10000)),
                   (''longitude'', JNum (802707 / 10000)), (''food_type'', JStr ''VEG''),
                   (''quantity_kg'', JNum (31 / 2)), (''donor_name'', JStr ''Raj Restaurant''),
                   (''status'', JStr ''AVAILABLE'')]\<rparr>
          [(4, True)]]
   \<and> find (\<lambda>d. donation_id d = 1)
        (donations \<lparr>donations = [example_row 1 AVAILABLE 9], next_id = 2,
                    active_connections = [4::nat]\<rparr>) \<noteq> None
   \<and> effects (update_donation_status ((calm 5)\<lparr>commit_ok := False\<rparr>) 1 ASSIGNED
        \<lparr>donations = [example_row 1 AVAILABLE 9], next_id = 2, active_connections = [4]\<rparr>) = []
   \<and> effects (update_donation_status (calm 5) 1 ASSIGNED
        \<lparr>donations = [example_row 1 AVAILABLE 9], next_id = 2, active_connections = [4]\<rparr>) =
       [Commit,
        Broadcast \<lparr>event = ''STATUS_UPDATE'',
                   data = [(''id'', JInt 1), (''status'', JStr ''ASSIGNED'')]\<rparr>
          [(4, True)]]"
proof -
  note failing =
    commit_then_broadcast
      [where donation = example_body and e = "(calm 5)\<lparr>commit_ok := False\<rparr>"
         and w = "initial_world\<lparr>active_connections := [4]\<rparr>" and i = 1
         and new_status = ASSIGNED]
    commit_then_broadcast
      [where donation = example_body and e = "(calm 5)\<lparr>commit_ok := False\<rparr>"
         and w = "\<lparr>donations = [example_row 1 AVAILABLE 9], next_id = 2,
                   active_connections = [4]\<rparr>"
         and i = 1 and new_status = ASSIGNED]
  note passing =
    commit_then_broadcast
      [where donation = example_body and e = "calm 5"
         and w = "initial_world\<lparr>active_connections := [4]\<rparr>" and i = 1
         and new_status = ASSIGNED]
    commit_then_broadcast
      [where donation = example_body and e = "calm 5"
         and w = "\<lparr>donations = [example_row 1 AVAILABLE 9], next_id = 2,
                   active_connections = [4]\<rparr>"
         and i = 1 and new_status = ASSIGNED]
  have no_commit: "\<not> commit_ok ((calm 5)\<lparr>commit_ok := False\<rparr>)" by simp
  have found: "find (\<lambda>d. donation_id d = 1)
        (donations \<lparr>donations = [example_row 1 AVAILABLE 9], next_id = 2,
                    active_connections = [4::nat]\<rparr>) \<noteq> None" by simp
  from failing(1) example_body_valid no_commit
  have a: "effects (create_donation ((calm 5)\<lparr>commit_ok := False\<rparr>) example_body
        (initial_world\<lparr>active_connections := [4]\<rparr>)) = []" by blast
  from failing(2) found no_commit
  have b: "effects (update_donation_status ((calm 5)\<lparr>commit_ok := False\<rparr>) 1 ASSIGNED
        \<lparr>donations = [example_row 1 AVAILABLE 9], next_id = 2, active_connections = [4]\<rparr>) = []"
    by blast
  have c: "effects (create_donation (calm 5) example_body
        (initial_world\<lparr>active_connections := [4]\<rparr>)) =
       [Commit,
        Broadcast
          \<lparr>event = ''NEW_DONATION'',
           data = [(''id'', JInt 1), (''latitude'', JNum (130827 / 10000)),
                   (''longitude'', JNum (802707 / 10000)), (''food_type'', JStr ''VEG''),
                   (''quantity_kg'', JNum (31 / 2)), (''donor_name'', JStr ''Raj Restaurant''),
                   (''status'', JStr ''AVAILABLE'')]\<rparr>
          [(4, True)]]"
    using create_donation_ok
      [OF example_body_valid, of "calm 5" "initial_world\<lparr>active_connections := [4]\<rparr>"]
    by (simp add: broadcast_and_return_quiet new_donation_message_def new_row_def
        initial_world_def example_body_def)
  have d: "effects (update_donation_status (calm 5) 1 ASSIGNED
        \<lparr>donations = [example_row 1 AVAILABLE 9], next_id = 2, active_connections = [4]\<rparr>) =
       [Commit,
        Broadcast \<lparr>event = ''STATUS_UPDATE'',
                   data = [(''id'', JInt 1), (''status'', JStr ''ASSIGNED'')]\<rparr>
          [(4, True)]]"
    by (simp add: update_donation_status_def broadcast_and_return_quiet
        status_update_message_def)
  from passing a b c d no_commit found example_body_valid show ?thesis by simp
qed

text \<open>
  C7, as stated: the event of a status change carries the status the donation had before.
  The event for setting donation 1 to \<open>ASSIGNED\<close> is the same whether the donation was
  \<open>AVAILABLE\<close> or \<open>IN_TRANSIT\<close> before: its data are the id and the new status.
\<close>

theorem status_update_payload_counterexample:
  "effects (update_donation_status (calm 0) 1 ASSIGNED
      \<lparr>donations = [example_row 1 AVAILABLE 9], next_id = 2, active_connections = []\<rparr>)
     = [Commit, Broadcast \<lparr>event = ''STATUS_UPDATE'',
                           data = [(''id'', JInt 1), (''status'', JStr ''ASSIGNED'')]\<rparr> []]
   \<and> effects (update_donation_status (calm 0) 1 ASSIGNED
      \<lparr>donations = [example_row 1 IN_TRANSIT 9], next_id = 2, active_connections = []\<rparr>)
     = [Commit, Broadcast \<lparr>event = ''STATUS_UPDATE'',
                           data = [(''id'', JInt 1), (''status'', JStr ''ASSIGNED'')]\<rparr> []]"
  by (simp add: update_donation_status_def broadcast_and_return_quiet status_update_message_def)

text \<open>
  C7, amended: the \<open>STATUS_UPDATE\<close> event of an accepted status update carries the
  donation id and the new status, and nothing else. It is the one event of such an
  update, emitted when the read of the row after the commit returns; when that read
  raises, there is no event.
\<close>

theorem status_update_payload:
  assumes "find (\<lambda>d. donation_id d = i) (donations w) = Some d" and "commit_ok e"
  shows "(reload_ok e \<longrightarrow>
           (\<exists>attempts. effects (update_donation_status e i new_status w) =
              [Commit,
               Broadcast \<lparr>event = ''STATUS_UPDATE'',
                          data = [(''id'', JInt i),
                                  (''status'', JStr (DonationStatus_value new_status))]\<rparr>
                 attempts]))
       \<and> (\<not> reload_ok e \<longrightarrow> effects (update_donation_status e i new_status w) = [Commit])"
proof (cases "reload_ok e")
  case True
  from broadcast_and_return_effects(2) [OF True,
      of "status_update_message d new_status"
         "\<lparr>su_message = ''Status updated'', su_donation_id = i, su_new_status = new_status\<rparr>"
         "w\<lparr>donations := set_status i new_status (donations w)\<rparr>"]
    assms find_Some_id [OF assms(1)] True
  show ?thesis by (simp add: update_donation_status_ok status_update_message_def)
next
  case False
  with assms show ?thesis
    by (simp add: update_donation_status_ok broadcast_and_return_effects)
qed

theorem status_update_payload_witness:
  "find (\<lambda>d. donation_id d = 1)
        (donations \<lparr>donations = [example_row 1 DELIVERED 9], next_id = 2,
                    active_connections = [4::nat]\<rparr>) = Some (example_row 1 DELIVERED 9)
   \<and> commit_ok (calm 0) \<and> reload_ok (calm 0)
   \<and> (\<exists>attempts. effects (update_donation_status (calm 0) 1 CANCELLED
        \<lparr>donations = [example_row 1 DELIVERED 9], next_id = 2, active_connections = [4]\<rparr>) =
         [Commit, Broadcast \<lparr>event = ''STATUS_UPDATE'',
                       data = [(''id'', JInt 1), (''status'', JStr ''CANCELLED'')]\<rparr>
              attempts])"
  using status_update_payload
      [where i = 1 and d = "example_row 1 DELIVERED 9" and e = "calm 0"
         and new_status = CANCELLED
         and w = "\<lparr>donations = [example_row 1 DELIVERED 9], next_id = 2,
                   active_connections = [4]\<rparr>"]
  by simp

section \<open>Validation of a new donation\<close>

text \<open>
  C8, as stated: a body whose expiry is not strictly after the creation time is rejected,
  so no such row is written. The example body with an expiry five microseconds before
  the creation time is accepted and its row is written.
\<close>

theorem expiry_validation_counterexample:
  "result (create_donation (calm 5) (example_body\<lparr>dc_expires_at := 0\<rparr>) initial_world)
     = Inr (new_row 1 5 (example_body\<lparr>dc_expires_at := 0\<rparr>))
   \<and> map (\<lambda>d. (created_at d, expires_at d))
        (donations (state (create_donation (calm 5) (example_body\<lparr>dc_expires_at := 0\<rparr>)
           initial_world))) = [(5, 0)]"
  by (simp add: create_donation_ok valid_expires_at example_body_valid
      broadcast_and_return_quiet initial_world_def new_row_def)

text \<open>
  C8, amended: a body that fails a constraint of \<open>DonationCreate\<close> is rejected with
  \<open>ValidationError\<close> before any store write or event; a quantity that is not positive or
  above 500, a latitude outside \<open>[-90, 90]\<close> and a longitude outside \<open>[-180, 180]\<close> fail.
  The expiry is not constrained: validity does not depend on it, and an accepted body is
  written with the expiry it carries and with the time of the insert as creation time.
\<close>

theorem create_donation_validation:
  "(\<not> DonationCreate_valid donation \<longrightarrow>
      create_donation e donation w =
        \<lparr>result = Inl ValidationError, state = w, effects = []\<rparr>)
   \<and> (dc_quantity_kg donation \<le> 0 \<or> 500 < dc_quantity_kg donation
       \<or> dc_latitude donation < - 90 \<or> 90 < dc_latitude donation
       \<or> dc_longitude donation < - 180 \<or> 180 < dc_longitude donation \<longrightarrow>
        \<not> DonationCreate_valid donation)
   \<and> DonationCreate_valid (donation\<lparr>dc_expires_at := t\<rparr>) = DonationCreate_valid donation
   \<and> (DonationCreate_valid donation \<and> commit_ok e \<longrightarrow>
        (\<exists>row. donations (state (create_donation e donation w)) = donations w @ [row]
           \<and> expires_at row = dc_expires_at donation \<and> created_at row = utcnow e
           \<and> (reload_ok e \<and> other_tasks e = [] \<longrightarrow>
                result (create_donation e donation w) = Inr row)))"
proof -
  have "create_donation e donation w = \<lparr>result = Inl ValidationError, state = w, effects = []\<rparr>"
    if "\<not> DonationCreate_valid donation"
    using that by (simp add: create_donation_def)
  moreover have "\<not> DonationCreate_valid donation"
    if "dc_quantity_kg donation \<le> 0 \<or> 500 < dc_quantity_kg donation
       \<or> dc_latitude donation < - 90 \<or> 90 < dc_latitude donation
       \<or> dc_longitude donation < - 180 \<or> 180 < dc_longitude donation"
    using that by (auto simp: DonationCreate_valid_def)
  moreover have "\<exists>row. donations (state (create_donation e donation w)) = donations w @ [row]
           \<and> expires_at row = dc_expires_at donation \<and> created_at row = utcnow e
           \<and> (reload_ok e \<and> other_tasks e = [] \<longrightarrow>
                result (create_donation e donation w) = Inr row)"
    if "DonationCreate_valid donation \<and> commit_ok e"
    using that
    by (intro exI [of _ "new_row (next_id w) (utcnow e) donation"])
      (simp add: create_donation_ok broadcast_and_return_table broadcast_and_return_quiet
        new_row_def)
  ultimately show ?thesis
    using valid_expires_at [where donation = donation and t = t] by blast
qed

theorem create_donation_validation_witness:
  "\<not> DonationCreate_valid (example_body\<lparr>dc_quantity_kg := 0\<rparr>)
   \<and> create_donation (calm 5) (example_body\<lparr>dc_quantity_kg := 0\<rparr>) initial_world =
       \<lparr>result = Inl ValidationError, state = initial_world, effects = []\<rparr>
   \<and> dc_quantity_kg (example_body\<lparr>dc_quantity_kg := 0\<rparr>) \<le> 0
   \<and> DonationCreate_valid example_body \<and> commit_ok (calm 5)
   \<and> reload_ok (calm 5) \<and> other_tasks (calm 5) = []
   \<and> (\<exists>row. result (create_donation (calm 5) example_body initial_world) = Inr row
         \<and> expires_at row = dc_expires_at example_body \<and> created_at row = 5)"
proof -
  have bad: "\<not> DonationCreate_valid (example_body\<lparr>dc_quantity_kg := 0\<rparr>)"
    by (simp add: DonationCreate_valid_def)
  from bad create_donation_validation
      [where donation = "example_body\<lparr>dc_quantity_kg := 0\<rparr>" and e = "calm 5"
         and w = initial_world and t = 0]
  have rejected: "create_donation (calm 5) (example_body\<lparr>dc_quantity_kg := 0\<rparr>) initial_world =
       \<lparr>result = Inl ValidationError, state = initial_world, effects = []\<rparr>"
    by blast
  from example_body_valid create_donation_validation
      [where donation = example_body and e = "calm 5" and w = initial_world and t = 0]
  have accepted: "\<exists>row. result (create_donation (calm 5) example_body initial_world) = Inr row
         \<and> expires_at row = dc_expires_at example_body \<and> created_at row = 5"
    by auto
  from bad rejected accepted example_body_valid show ?thesis by simp
qed

section \<open>The assignment fields\<close>

lemma reachable_assigned_example:
  "reachable (state (update_donation_status (calm 0) 1 ASSIGNED
      (state (create_donation (calm 0) example_body initial_world))))"
  by (intro reachable.updated reachable.created reachable.start)

text \<open>
  C9, as stated: in every reachable state a donation with status \<open>ASSIGNED\<close> has its
  assigned volunteer set. Creating a donation and setting its status to \<open>ASSIGNED\<close> gives
  a state in which the donation is \<open>ASSIGNED\<close> and \<open>assigned_volunteer_id\<close> is \<open>None\<close>.
\<close>

theorem assigned_volunteer_counterexample:
  "reachable (state (update_donation_status (calm 0) 1 ASSIGNED
      (state (create_donation (calm 0) example_body initial_world))))
   \<and> map (\<lambda>d. (status d, assigned_volunteer_id d))
        (donations (state (update_donation_status (calm 0) 1 ASSIGNED
           (state (create_donation (calm 0) example_body initial_world)))))
      = [(ASSIGNED, None)]"
  using reachable_assigned_example
  by (simp add: donations_update_donation_status donations_create_donation
      example_body_valid initial_world_def set_status_def new_row_def)

text \<open>
  C9, amended: no operation writes the assignment fields. In every state reachable by
  create, status update, sweep, connect and disconnect, every donation has
  \<open>assigned_volunteer_id\<close> and \<open>assigned_at\<close> unset, whatever its status; in particular a
  donation with status \<open>AVAILABLE\<close> has no assigned volunteer.
\<close>

theorem assignment_fields_never_set:
  assumes "reachable w"
  shows "\<forall>d \<in> set (donations w).
           assigned_volunteer_id d = None \<and> assigned_at d = None
         \<and> (status d = AVAILABLE \<longrightarrow> assigned_volunteer_id d = None)"
  using assms
proof (induction rule: reachable.induct)
  case start
  show ?case by (simp add: initial_world_def)
next
  case (created w e donation)
  then show ?case by (simp add: donations_create_donation new_row_def)
next
  case (updated w e i new_status)
  then show ?case by (auto simp: donations_update_donation_status set_status_def)
next
  case (swept w e)
  then show ?case by (simp add: donations_cleanup_expired_donations)
next
  case (opened w websocket)
  then show ?case by (simp add: websocket_open_def)
next
  case (closed w websocket w')
  then show ?case by (auto simp: websocket_closed_def split: sum.splits)
qed

theorem assignment_fields_never_set_witness:
  "reachable (state (update_donation_status (calm 0) 1 IN_TRANSIT
      (state (create_donation (calm 0) example_body initial_world))))
   \<and> map (\<lambda>d. (donation_id d, status d, assigned_volunteer_id d, assigned_at d))
        (donations (state (update_donation_status (calm 0) 1 IN_TRANSIT
           (state (create_donation (calm 0) example_body initial_world)))))
      = [(1, IN_TRANSIT, None, None)]"
proof -
  have r: "reachable (state (update_donation_status (calm 0) 1 IN_TRANSIT
      (state (create_donation (calm 0) example_body initial_world))))"
    by (intro reachable.updated reachable.created reachable.start)
  show ?thesis
    using r assignment_fields_never_set [OF r]
    by (simp add: donations_update_donation_status donations_create_donation
      example_body_valid initial_world_def set_status_def new_row_def)
qed

section \<open>Unregistering a connection\<close>

text \<open>
  C10: \<open>disconnect\<close> of a socket that is not in the list raises \<open>ValueError\<close>. So once a
  broadcast has removed a socket whose send failed, the \<open>disconnect\<close> that the socket's own
  task runs on closure raises; and of two disconnects of a socket registered once, the
  second raises.
\<close>

theorem disconnect_absent_raises:
  fixes e :: "'ws env" and w :: "'ws world" and r :: 'r and msg :: message
  shows "(websocket \<notin> set (active_connections w) \<longrightarrow>
            disconnect websocket (active_connections w) = Inl ValueError
          \<and> websocket_closed websocket w = Inl ValueError)
   \<and> (\<not> send_json e websocket msg \<longrightarrow>
        (\<exists>conns' attempts.
            broadcast [] (send_json e) msg (active_connections w) = Inr (conns', attempts)
          \<and> disconnect websocket conns' = Inl ValueError)
        \<and> (reload_ok e \<and> other_tasks e = [] \<longrightarrow>
             websocket_closed websocket (state (broadcast_and_return e msg r w))
               = Inl ValueError))
   \<and> (distinct (active_connections w) \<and> websocket \<in> set (active_connections w) \<longrightarrow>
        (\<exists>w'. websocket_closed websocket w = Inr w'
           \<and> websocket_closed websocket w' = Inl ValueError))"
  by (simp add: disconnect_def list_remove_def broadcast_quiet broadcast_and_return_quiet
      websocket_closed_def)

theorem disconnect_absent_raises_witness:
  "(3::nat) \<notin> set [1, 2] \<and> disconnect (3::nat) [1, 2] = Inl ValueError
   \<and> \<not> (\<lambda>c m. c \<noteq> (2::nat)) 2 \<lparr>event = ''PING'', data = []\<rparr>
   \<and> websocket_closed 2
        (state (broadcast_and_return
           \<lparr>utcnow = 0, commit_ok = True, reload_ok = True,
            send_json = (\<lambda>c m. c \<noteq> (2::nat)), other_tasks = []\<rparr>
           \<lparr>event = ''PING'', data = []\<rparr> ()
           \<lparr>donations = [], next_id = 1, active_connections = [1, 2, 3]\<rparr>)) = Inl ValueError
   \<and> distinct [1::nat, 2, 3] \<and> (2::nat) \<in> set [1, 2, 3]
   \<and> websocket_closed (2::nat) \<lparr>donations = [], next_id = 1, active_connections = [1, 2, 3]\<rparr>
        = Inr \<lparr>donations = [], next_id = 1, active_connections = [1, 3]\<rparr>"
  using disconnect_absent_raises
      [where websocket = "3::nat"
         and w = "\<lparr>donations = [], next_id = 1, active_connections = [1, 2]\<rparr>"
         and e = "\<lparr>utcnow = 0, commit_ok = True, reload_ok = True,
                   send_json = (\<lambda>c m. c \<noteq> (2::nat)), other_tasks = []\<rparr>"
         and msg = "\<lparr>event = ''PING'', data = []\<rparr>" and r = "()"]
    disconnect_absent_raises
      [where websocket = "2::nat"
         and w = "\<lparr>donations = [], next_id = 1, active_connections = [1, 2, 3]\<rparr>"
         and e = "\<lparr>utcnow = 0, commit_ok = True, reload_ok = True,
                   send_json = (\<lambda>c m. c \<noteq> (2::nat)), other_tasks = []\<rparr>"
         and msg = "\<lparr>event = ''PING'', data = []\<rparr>" and r = "()"]
  by (simp add: websocket_closed_def disconnect_def list_remove_def)

end
